theory Spec2Isabelle
  imports Complex_Main "HOL-Library.AList"
begin

section \<open>HEASARC cross-match: a model of \<^verbatim>\<open>code_src/heasarc_functions.py\<close>\<close>

text \<open>
  The module has two functions, \<^verbatim>\<open>make_hist_error_radii\<close> and
  \<^verbatim>\<open>HEASARC_get_lightcurves\<close>. Both talk to a remote TAP service and work on
  mutable Python objects (astropy tables, the light-curve accumulator). The model
  makes both explicit: objects live in a heap indexed by address, every call to
  the outside world is written to a trace, and every Python exception is a value
  of type \<open>error\<close>.

  Python floats are modelled as reals: the literal \<^verbatim>\<open>0.1\<close> is the real
  \<open>0.1\<close>, and a cutoff placed into the query text is the number the service reads
  back. The two \<^verbatim>\<open>print\<close> calls of the loop have no effect on any value and
  are left out.
\<close>

subsection \<open>Exceptions\<close>

datatype error =
    KeyError string
  | IndexError
  | AttributeError string
  | ValueError
  | TypeError
  | RemoteFailure string

subsection \<open>Tables\<close>

text \<open>
  An astropy table is an ordered list of named columns. A cell of the
  \<^verbatim>\<open>coord\<close> column is a sky coordinate, carrying right ascension and
  declination in degrees.
\<close>

datatype cell = IntC int | StrC string | FloatC real | CoordC real real

type_synonym column = "cell list"
type_synonym table = "(string \<times> column) list"

text \<open>\<^verbatim>\<open>t[name]\<close>: the column, or \<^verbatim>\<open>KeyError\<close>.\<close>

definition tbl_getitem :: "table \<Rightarrow> string \<Rightarrow> error + column" where
  "tbl_getitem t name = (case map_of t name of None \<Rightarrow> Inl (KeyError name) | Some c \<Rightarrow> Inr c)"

text \<open>
  \<^verbatim>\<open>t[name1, name2, ...]\<close>: a new table holding copies of the named columns,
  looked up from left to right.
\<close>

fun tbl_select :: "table \<Rightarrow> string list \<Rightarrow> error + table" where
  "tbl_select t [] = Inr []"
| "tbl_select t (name # names) =
     (case tbl_getitem t name of
        Inl e \<Rightarrow> Inl e
      | Inr c \<Rightarrow> (case tbl_select t names of Inl e \<Rightarrow> Inl e | Inr r \<Rightarrow> Inr ((name, c) # r)))"

text \<open>\<^verbatim>\<open>t[name] = col\<close>: replaces the column of that name, or adds it at the end.\<close>

definition tbl_setitem :: "table \<Rightarrow> string \<Rightarrow> column \<Rightarrow> table" where
  "tbl_setitem t name col = AList.update name col t"

text \<open>\<^verbatim>\<open>len(t)\<close>: the number of rows, read off the first column.\<close>

definition tbl_len :: "table \<Rightarrow> nat" where
  "tbl_len t = (case t of [] \<Rightarrow> 0 | (_, c) # _ \<Rightarrow> length c)"

fun is_coord :: "cell \<Rightarrow> bool" where
  "is_coord (CoordC _ _) = True"
| "is_coord _ = False"

fun cell_ra :: "cell \<Rightarrow> real" where
  "cell_ra (CoordC ra _) = ra"
| "cell_ra _ = 0"

fun cell_dec :: "cell \<Rightarrow> real" where
  "cell_dec (CoordC _ dec) = dec"
| "cell_dec _ = 0"

text \<open>
  \<^verbatim>\<open>col.ra.deg\<close> and \<^verbatim>\<open>col.dec.deg\<close>: only a coordinate column has
  these attributes.
\<close>

definition ra_deg :: "column \<Rightarrow> error + column" where
  "ra_deg col = (if list_all is_coord col then Inr (map (\<lambda>c. FloatC (cell_ra c)) col)
                 else Inl (AttributeError ''ra''))"

definition dec_deg :: "column \<Rightarrow> error + column" where
  "dec_deg col = (if list_all is_coord col then Inr (map (\<lambda>c. FloatC (cell_dec c)) col)
                  else Inl (AttributeError ''dec''))"

text \<open>\<^verbatim>\<open>xs[m]\<close> for an index \<open>m\<close> that comes from \<^verbatim>\<open>range\<close>.\<close>

definition list_index :: "'a list \<Rightarrow> nat \<Rightarrow> error + 'a" where
  "list_index xs m = (if m < length xs then Inr (xs ! m) else Inl IndexError)"

subsection \<open>Queries\<close>

text \<open>
  The query text is kept as its syntax tree. \<open>Col a c\<close> is the column reference
  \<^verbatim>\<open>a.c\<close>.
\<close>

datatype expr =
    Col string string
  | Num real
  | Point string expr expr
  | Circle string expr expr expr
  | Contains expr expr

datatype cond = Less expr expr | Equals expr expr | And cond cond

record query =
  q_top :: "nat option"
  q_select :: "(string \<times> string) list"
  q_from :: "(string \<times> string) list"
  q_where :: "cond option"

text \<open>
  \<^verbatim>\<open>SELECT TOP 5000 cat.name, cat.ra, cat.dec, cat.error_radius
  FROM {missioncat} as cat\<close>
\<close>

definition heasarcquery :: "string \<Rightarrow> query" where
  "heasarcquery missioncat =
     \<lparr> q_top = Some 5000,
       q_select = [(''cat'', ''name''), (''cat'', ''ra''), (''cat'', ''dec''),
                   (''cat'', ''error_radius'')],
       q_from = [(missioncat, ''cat'')],
       q_where = None \<rparr>"

text \<open>
  \<^verbatim>\<open>SELECT cat.name, cat.ra, cat.dec, cat.error_radius, cat.time, mt.object_ID, mt.label
  FROM {heasarc_cat[m]} cat, tap_upload.mytable mt
  WHERE cat.error_radius < {max_error_radius[m]} AND
  CONTAINS(POINT('ICRS',mt.ra,mt.dec),CIRCLE('ICRS',cat.ra,cat.dec,cat.error_radius))=1\<close>
\<close>

definition hquery :: "string \<Rightarrow> real \<Rightarrow> query" where
  "hquery cat r =
     \<lparr> q_top = None,
       q_select = [(''cat'', ''name''), (''cat'', ''ra''), (''cat'', ''dec''),
                   (''cat'', ''error_radius''), (''cat'', ''time''),
                   (''mt'', ''object_ID''), (''mt'', ''label'')],
       q_from = [(cat, ''cat''), (''tap_upload.mytable'', ''mt'')],
       q_where = Some (And
         (Less (Col ''cat'' ''error_radius'') (Num r))
         (Equals
            (Contains (Point ''ICRS'' (Col ''mt'' ''ra'') (Col ''mt'' ''dec''))
                      (Circle ''ICRS'' (Col ''cat'' ''ra'') (Col ''cat'' ''dec'')
                                       (Col ''cat'' ''error_radius'')))
            (Num 1))) \<rparr>"

text \<open>
  What a \<^verbatim>\<open>WHERE\<close> clause means on one candidate row of the join. The row
  gives a number to each column reference; the geometry of
  \<^verbatim>\<open>CONTAINS(POINT, CIRCLE)\<close> belongs to the service and is a parameter.
\<close>

datatype val = VNum real | VPoint real real | VCircle real real real

type_synonym row = "string \<Rightarrow> string \<Rightarrow> real option"
type_synonym geometry = "real \<times> real \<Rightarrow> real \<times> real \<times> real \<Rightarrow> bool"

fun eval :: "geometry \<Rightarrow> row \<Rightarrow> expr \<Rightarrow> val option" where
  "eval g \<rho> (Col a c) = map_option VNum (\<rho> a c)"
| "eval g \<rho> (Num x) = Some (VNum x)"
| "eval g \<rho> (Point f x y) =
     (case (eval g \<rho> x, eval g \<rho> y) of
        (Some (VNum a), Some (VNum b)) \<Rightarrow> Some (VPoint a b)
      | _ \<Rightarrow> None)"
| "eval g \<rho> (Circle f x y r) =
     (case (eval g \<rho> x, eval g \<rho> y, eval g \<rho> r) of
        (Some (VNum a), Some (VNum b), Some (VNum c)) \<Rightarrow> Some (VCircle a b c)
      | _ \<Rightarrow> None)"
| "eval g \<rho> (Contains p c) =
     (case (eval g \<rho> p, eval g \<rho> c) of
        (Some (VPoint a b), Some (VCircle x y r)) \<Rightarrow> Some (VNum (if g (a, b) (x, y, r) then 1 else 0))
      | _ \<Rightarrow> None)"

fun holds :: "geometry \<Rightarrow> row \<Rightarrow> cond \<Rightarrow> bool" where
  "holds g \<rho> (Less a b) =
     (case (eval g \<rho> a, eval g \<rho> b) of (Some (VNum x), Some (VNum y)) \<Rightarrow> x < y | _ \<Rightarrow> False)"
| "holds g \<rho> (Equals a b) =
     (case (eval g \<rho> a, eval g \<rho> b) of (Some (VNum x), Some (VNum y)) \<Rightarrow> x = y | _ \<Rightarrow> False)"
| "holds g \<rho> (And c d) = (holds g \<rho> c \<and> holds g \<rho> d)"

text \<open>A row is in the result of a query when the query has no filter or its filter holds.\<close>

definition selects :: "geometry \<Rightarrow> query \<Rightarrow> row \<Rightarrow> bool" where
  "selects g q \<rho> = (case q_where q of None \<Rightarrow> True | Some c \<Rightarrow> holds g \<rho> c)"

subsection \<open>Light-curve rows, objects, events, state\<close>

text \<open>
  A row of the data frame built at lines 114-117, after \<^verbatim>\<open>set_index\<close>: the
  four index levels and the two value columns.
\<close>

record lcpoint =
  object_id :: cell
  label :: cell
  band :: string
  time :: cell
  flux :: real
  err :: real

text \<open>
  Modelled from the spec: the class \<^verbatim>\<open>MultiIndexDFObject\<close> of
  \<^verbatim>\<open>data_structures.py\<close> is not among the sources. The spec describes it as an
  append-only collection of light-curve rows that receives batches through
  \<^verbatim>\<open>append(batch)\<close> and is only ever grown; it leaves merge semantics open and
  asks that no deduplication be invented. The object therefore holds the list of its rows,
  is empty when constructed without data, and \<^verbatim>\<open>append\<close> adds the rows of the
  batch at the end.
\<close>

datatype obj = TableObj table | MultiIndexDFObject "lcpoint list"

type_synonym uploads = "(string \<times> table) list"

datatype event =
    RegSearch string "string list"
  | RunSync query uploads
  | Hist column nat real real
  | Append "lcpoint list"

record state =
  heap :: "obj list"
  trace :: "event list"

text \<open>
  The remote side. A service answers its \<open>n\<close>-th query (counting from 0) with a
  table or with a failure; \<^verbatim>\<open>pyvo.regsearch\<close> yields a list of services or
  fails.
\<close>

type_synonym service = "nat \<Rightarrow> query \<Rightarrow> uploads \<Rightarrow> error + table"
type_synonym registry = "error + service list"

primrec queries :: "event list \<Rightarrow> (query \<times> uploads) list" where
  "queries [] = []"
| "queries (ev # evs) = (case ev of RunSync q u \<Rightarrow> (q, u) # queries evs | _ \<Rightarrow> queries evs)"

primrec appends :: "event list \<Rightarrow> lcpoint list list" where
  "appends [] = []"
| "appends (ev # evs) = (case ev of Append b \<Rightarrow> b # appends evs | _ \<Rightarrow> appends evs)"

subsection \<open>Statements: state passing with exceptions\<close>

type_synonym 'a prog = "state \<Rightarrow> (error + 'a) \<times> state"

definition ret :: "'a \<Rightarrow> 'a prog" where
  "ret x st = (Inr x, st)"

definition lift :: "error + 'a \<Rightarrow> 'a prog" where
  "lift r st = (r, st)"

definition seq :: "'a prog \<Rightarrow> ('a \<Rightarrow> 'b prog) \<Rightarrow> 'b prog" where
  "seq p f st = (case p st of (Inl e, st') \<Rightarrow> (Inl e, st') | (Inr x, st') \<Rightarrow> f x st')"

definition emit :: "event \<Rightarrow> unit prog" where
  "emit ev st = (Inr (), st\<lparr>trace := trace st @ [ev]\<rparr>)"

definition new_obj :: "obj \<Rightarrow> nat prog" where
  "new_obj ob st = (Inr (length (heap st)), st\<lparr>heap := heap st @ [ob]\<rparr>)"

definition get_table :: "nat \<Rightarrow> table prog" where
  "get_table a st =
     (if a < length (heap st)
      then (case heap st ! a of TableObj t \<Rightarrow> (Inr t, st) | _ \<Rightarrow> (Inl TypeError, st))
      else (Inl TypeError, st))"

definition getitem :: "nat \<Rightarrow> string \<Rightarrow> column prog" where
  "getitem a name = seq (get_table a) (\<lambda>t. lift (tbl_getitem t name))"

definition getitem_cols :: "nat \<Rightarrow> string list \<Rightarrow> nat prog" where
  "getitem_cols a names =
     seq (get_table a) (\<lambda>t. seq (lift (tbl_select t names)) (\<lambda>t'. new_obj (TableObj t')))"

definition setitem :: "nat \<Rightarrow> string \<Rightarrow> column \<Rightarrow> unit prog" where
  "setitem a name col =
     seq (get_table a) (\<lambda>t st.
       (Inr (), st\<lparr>heap := (heap st)[a := TableObj (tbl_setitem t name col)]\<rparr>))"

text \<open>\<^verbatim>\<open>pyvo.regsearch(servicetype='tap', keywords=['heasarc'])[0]\<close>\<close>

definition regsearch :: "registry \<Rightarrow> service prog" where
  "regsearch reg =
     seq (emit (RegSearch ''tap'' [''heasarc''])) (\<lambda>_.
     seq (lift reg) (\<lambda>found. lift (list_index found 0)))"

text \<open>
  \<^verbatim>\<open>service.run_sync(query, uploads={name: table, ...})\<close> followed by
  \<^verbatim>\<open>to_table()\<close>: the uploaded tables are read from the heap when the call is made.
\<close>

fun read_uploads :: "(string \<times> nat) list \<Rightarrow> uploads prog" where
  "read_uploads [] = ret []"
| "read_uploads ((name, a) # us) =
     seq (get_table a) (\<lambda>t. seq (read_uploads us) (\<lambda>r. ret ((name, t) # r)))"

definition run_sync :: "service \<Rightarrow> query \<Rightarrow> (string \<times> nat) list \<Rightarrow> table prog" where
  "run_sync svc q ups =
     seq (read_uploads ups) (\<lambda>u st.
       (svc (length (queries (trace st))) q u, st\<lparr>trace := trace st @ [RunSync q u]\<rparr>))"

text \<open>\<^verbatim>\<open>df_lc.append(batch)\<close>\<close>

definition append :: "nat \<Rightarrow> lcpoint list \<Rightarrow> unit prog" where
  "append a batch st =
     (if a < length (heap st)
      then (case heap st ! a of
              MultiIndexDFObject rows \<Rightarrow>
                (Inr (), st\<lparr>heap := (heap st)[a := MultiIndexDFObject (rows @ batch)],
                             trace := trace st @ [Append batch]\<rparr>)
            | _ \<Rightarrow> (Inl (AttributeError ''append''), st))
      else (Inl TypeError, st))"

text \<open>\<^verbatim>\<open>for m in ms: body(m)\<close>; an exception in the body ends the loop.\<close>

fun for_loop :: "(nat \<Rightarrow> unit prog) \<Rightarrow> nat list \<Rightarrow> unit prog" where
  "for_loop body [] st = (Inr (), st)"
| "for_loop body (m # ms) st =
     (case body m st of (Inl e, st') \<Rightarrow> (Inl e, st') | (Inr _, st') \<Rightarrow> for_loop body ms st')"

subsection \<open>\<^verbatim>\<open>make_hist_error_radii\<close>\<close>

definition make_hist_error_radii :: "registry \<Rightarrow> string \<Rightarrow> table prog" where
  "make_hist_error_radii reg missioncat =
     seq (regsearch reg) (\<lambda>heasarc_tap.
     seq (run_sync heasarc_tap (heasarcquery missioncat) []) (\<lambda>heasarcresulttable.
     seq (lift (tbl_getitem heasarcresulttable ''error_radius'')) (\<lambda>radii.
     seq (emit (Hist radii 30 0 10)) (\<lambda>_.
     ret heasarcresulttable))))"

subsection \<open>\<^verbatim>\<open>HEASARC_get_lightcurves\<close>\<close>

text \<open>
  Lines 114-117. The columns are read in the order of the keyword arguments;
  \<^verbatim>\<open>pd.DataFrame\<close> refuses columns of different lengths. The query asks for
  \<^verbatim>\<open>mt.object_ID\<close> and this code reads the column \<^verbatim>\<open>object_id\<close>:
  a result table that names the column otherwise ends in \<^verbatim>\<open>KeyError\<close>.
\<close>

definition make_df :: "string \<Rightarrow> table \<Rightarrow> error + lcpoint list" where
  "make_df cat hresulttable =
     (let n = tbl_len hresulttable in
      case tbl_getitem hresulttable ''time'' of Inl e \<Rightarrow> Inl e | Inr tm \<Rightarrow>
     (case tbl_getitem hresulttable ''object_id'' of Inl e \<Rightarrow> Inl e | Inr oid \<Rightarrow>
     (case tbl_getitem hresulttable ''label'' of Inl e \<Rightarrow> Inl e | Inr lab \<Rightarrow>
        if length tm = n \<and> length oid = n \<and> length lab = n
        then Inr (map (\<lambda>i. \<lparr> object_id = oid ! i, label = lab ! i, band = cat,
                              time = tm ! i, flux = 0.1, err = 0.1 \<rparr>) [0..<n])
        else Inl ValueError)))"

text \<open>The body of the loop, lines 95-120.\<close>

definition loop_body ::
    "service \<Rightarrow> nat \<Rightarrow> nat \<Rightarrow> string list \<Rightarrow> real list \<Rightarrow> nat \<Rightarrow> unit prog" where
  "loop_body heasarc_tap upload_table df_lc heasarc_cat max_error_radius m =
     seq (lift (list_index heasarc_cat m)) (\<lambda>cat.
     seq (lift (list_index max_error_radius m)) (\<lambda>r.
     seq (run_sync heasarc_tap (hquery cat r) [(''mytable'', upload_table)]) (\<lambda>hresulttable.
     seq (lift (make_df cat hresulttable)) (\<lambda>df_heasarc.
     append df_lc df_heasarc))))"

definition HEASARC_get_lightcurves ::
    "registry \<Rightarrow> nat \<Rightarrow> string list \<Rightarrow> real list \<Rightarrow> nat prog" where
  "HEASARC_get_lightcurves reg source_table heasarc_cat max_error_radius =
     seq (getitem_cols source_table [''object_id'', ''label'']) (\<lambda>upload_table.
     seq (getitem source_table ''coord'') (\<lambda>c.
     seq (lift (ra_deg c)) (\<lambda>ra.
     seq (setitem upload_table ''ra'' ra) (\<lambda>_.
     seq (getitem source_table ''coord'') (\<lambda>c.
     seq (lift (dec_deg c)) (\<lambda>dec.
     seq (setitem upload_table ''dec'' dec) (\<lambda>_.
     seq (new_obj (MultiIndexDFObject [])) (\<lambda>df_lc.
     seq (regsearch reg) (\<lambda>heasarc_tap.
     seq (for_loop (loop_body heasarc_tap upload_table df_lc heasarc_cat max_error_radius)
            [0..<length heasarc_cat]) (\<lambda>_.
     ret df_lc))))))))))"

text \<open>The state a call starts from: the caller's objects, and no event yet.\<close>

definition init :: "obj list \<Rightarrow> state" where
  "init h = \<lparr> heap = h, trace = [] \<rparr>"

text \<open>The table uploaded by a call on a source table \<open>t\<close>, as a value.\<close>

definition upload_of :: "table \<Rightarrow> error + table" where
  "upload_of t =
     (case tbl_select t [''object_id'', ''label''] of Inl e \<Rightarrow> Inl e | Inr t0 \<Rightarrow>
     (case tbl_getitem t ''coord'' of Inl e \<Rightarrow> Inl e | Inr c \<Rightarrow>
     (case ra_deg c of Inl e \<Rightarrow> Inl e | Inr ra \<Rightarrow>
     (case dec_deg c of Inl e \<Rightarrow> Inl e | Inr dec \<Rightarrow>
        Inr (tbl_setitem (tbl_setitem t0 ''ra'' ra) ''dec'' dec)))))"

text \<open>The state in which the loop starts, once lines 83-91 have succeeded.\<close>

definition loop_start :: "obj list \<Rightarrow> table \<Rightarrow> state" where
  "loop_start h T = \<lparr> heap = h @ [TableObj T, MultiIndexDFObject []],
                       trace = [RegSearch ''tap'' [''heasarc'']] \<rparr>"

subsection \<open>A concrete run\<close>

text \<open>
  Two targets with label \<^verbatim>\<open>A\<close>; a service that knows the catalog
  \<^verbatim>\<open>CAT1\<close>, where it finds two events near target 1, and fails on every
  other catalog.
\<close>

definition ex_source :: table where
  "ex_source = [(''object_id'', [IntC 1, IntC 2]), (''label'', [StrC ''A'', StrC ''A'']),
                (''coord'', [CoordC 10 20, CoordC 30 40])]"

definition ex_hits :: table where
  "ex_hits = [(''name'', [StrC ''GRB1'', StrC ''GRB2'']), (''ra'', [FloatC 10, FloatC 10]),
     (''dec'', [FloatC 20, FloatC 20]), (''error_radius'', [FloatC 1, FloatC 2]),
     (''time'', [FloatC 100, FloatC 200]), (''object_id'', [IntC 1, IntC 1]),
     (''label'', [StrC ''A'', StrC ''A''])]"

definition ex_service :: service where
  "ex_service n q u =
     (if map fst (q_from q) = [''CAT1'', ''tap_upload.mytable''] then Inr ex_hits
      else Inl (RemoteFailure ''no such catalog''))"

text \<open>A candidate row of the join whose catalog error radius is 5.\<close>

definition ex_boundary_row :: row where
  "ex_boundary_row a c = (if a = ''cat'' \<and> c = ''error_radius'' then Some 5
                           else if a = ''cat'' \<or> a = ''mt'' then Some 0 else None)"




text \<open>
  The state of a call after the first \<open>n\<close> catalogs have been processed without
  failure, \<open>b m\<close> being the batch built for catalog \<open>m\<close>: the projected table, the
  accumulator with the batches so far, and one query and one append per catalog.
\<close>

definition after_catalogs ::
    "obj list \<Rightarrow> table \<Rightarrow> string list \<Rightarrow> real list \<Rightarrow> (nat \<Rightarrow> lcpoint list) \<Rightarrow> nat \<Rightarrow> state" where
  "after_catalogs h T cats radii b n =
     \<lparr> heap = h @ [TableObj T, MultiIndexDFObject (concat (map b [0..<n]))],
       trace = RegSearch ''tap'' [''heasarc'']
               # concat (map (\<lambda>m. [RunSync (hquery (cats ! m) (radii ! m)) [(''mytable'', T)],
                                     Append (b m)]) [0..<n]) \<rparr>"

text \<open>The projection of \<open>ex_source\<close>, and the batch built from \<open>ex_hits\<close>.\<close>

definition ex_upload :: table where
  "ex_upload = [(''object_id'', [IntC 1, IntC 2]), (''label'', [StrC ''A'', StrC ''A'']),
                (''ra'', [FloatC 10, FloatC 30]), (''dec'', [FloatC 20, FloatC 40])]"

definition ex_batch :: "lcpoint list" where
  "ex_batch = [\<lparr> object_id = IntC 1, label = StrC ''A'', band = ''CAT1'', time = FloatC 100,
                  flux = 0.1, err = 0.1 \<rparr>,
               \<lparr> object_id = IntC 1, label = StrC ''A'', band = ''CAT1'', time = FloatC 200,
                  flux = 0.1, err = 0.1 \<rparr>]"

text \<open>
  An empty result set: a table with the columns the loop reads and no row in any column.
\<close>

definition is_empty_result :: "table \<Rightarrow> bool" where
  "is_empty_result tbl =
     (list_all (\<lambda>(name, c). c = []) tbl
      \<and> ''time'' \<in> set (map fst tbl) \<and> ''object_id'' \<in> set (map fst tbl)
      \<and> ''label'' \<in> set (map fst tbl))"

text \<open>A service that finds nothing in the catalog \<^verbatim>\<open>CAT0\<close>.\<close>

definition ex_empty :: table where
  "ex_empty = [(''name'', []), (''ra'', []), (''dec'', []), (''error_radius'', []),
               (''time'', []), (''object_id'', []), (''label'', [])]"

definition ex_quiet_service :: service where
  "ex_quiet_service n q u =
     (if map fst (q_from q) = [''CAT0'', ''tap_upload.mytable''] then Inr ex_empty
      else ex_service n q u)"

text \<open>
  A catalog sample with one error radius inside the histogram range and one outside it, and
  a service that answers the sample query for \<^verbatim>\<open>FERMIGTRIG\<close> with it.
\<close>

definition ex_catalog :: table where
  "ex_catalog = [(''name'', [StrC ''GRB1'', StrC ''GRB2'']), (''ra'', [FloatC 10, FloatC 200]),
     (''dec'', [FloatC 20, FloatC (-5)]), (''error_radius'', [FloatC 0.5, FloatC 50])]"

definition ex_catalog_service :: service where
  "ex_catalog_service n q u =
     (if q = heasarcquery ''FERMIGTRIG'' \<and> u = [] then Inr ex_catalog
      else Inl (RemoteFailure ''no such catalog''))"

section \<open>Properties\<close>

subsection \<open>Traces and the loop\<close>

lemma queries_append: "queries (xs @ ys) = queries xs @ queries ys"
  by (induction xs) (auto split: event.splits)

lemma appends_append: "appends (xs @ ys) = appends xs @ appends ys"
  by (induction xs) (auto split: event.splits)

lemma for_loop_append:
  "for_loop body (xs @ ys) st =
     (case for_loop body xs st of (Inl e, st') \<Rightarrow> (Inl e, st') | (Inr u, st') \<Rightarrow> for_loop body ys st')"
  by (induction xs arbitrary: st) (auto split: prod.splits sum.splits)

lemma loop_body_step:
  assumes "upl < length (heap st)" and "heap st ! upl = TableObj T"
    and "df < length (heap st)" and "heap st ! df = MultiIndexDFObject d"
  shows "loop_body svc upl df cats radii m st =
    (if m < length cats \<and> m < length radii then
       (case svc (length (queries (trace st))) (hquery (cats ! m) (radii ! m)) [(''mytable'', T)] of
          Inl e \<Rightarrow> (Inl e, st\<lparr>trace := trace st @ [RunSync (hquery (cats ! m) (radii ! m)) [(''mytable'', T)]]\<rparr>)
        | Inr tbl \<Rightarrow>
            (case make_df (cats ! m) tbl of
               Inl e \<Rightarrow> (Inl e, st\<lparr>trace := trace st @ [RunSync (hquery (cats ! m) (radii ! m)) [(''mytable'', T)]]\<rparr>)
             | Inr b \<Rightarrow> (Inr (), st\<lparr>heap := (heap st)[df := MultiIndexDFObject (d @ b)],
                                    trace := trace st @ [RunSync (hquery (cats ! m) (radii ! m)) [(''mytable'', T)], Append b]\<rparr>)))
     else (Inl IndexError, st))"
  using assms
  by (simp add: loop_body_def seq_def lift_def list_index_def run_sync_def get_table_def
      ret_def append_def split: sum.splits)

lemma upd_same: "xs ! i = v \<Longrightarrow> xs = xs[i := v]"
  by (metis list_update_id)

lemma make_df_rows:
  assumes "make_df cat tbl = Inr b" and "p \<in> set b"
  shows "band p = cat \<and> flux p = 0.1 \<and> err p = 0.1"
  using assms by (auto simp: make_df_def Let_def split: sum.splits if_splits)

lemma loop_any:
  assumes "for_loop (loop_body svc upl df cats radii) ms st = (res, st')"
    and "upl < length (heap st)" and "heap st ! upl = TableObj T"
    and "df < length (heap st)" and "heap st ! df = MultiIndexDFObject d"
  shows "\<exists>bs j. heap st' = (heap st)[df := MultiIndexDFObject (d @ concat bs)]
     \<and> appends (trace st') = appends (trace st) @ bs
     \<and> queries (trace st') = queries (trace st)
          @ map (\<lambda>m. (hquery (cats ! m) (radii ! m), [(''mytable'', T)])) (take j ms)
     \<and> length bs \<le> j \<and> j \<le> length ms \<and> (res = Inr () \<longrightarrow> length bs = length ms)
     \<and> (\<forall>m\<in>set (take j ms). m < length radii)
     \<and> (\<forall>k<length bs. \<forall>p\<in>set (bs ! k).
           band p = cats ! (ms ! k) \<and> flux p = 0.1 \<and> err p = 0.1)"
  using assms
proof (induction ms arbitrary: st d)
  case Nil
  then have "st' = st" and "res = Inr ()" by auto
  with Nil show ?case
    by (intro exI[of _ "[]"] exI[of _ 0]) (simp add: upd_same)
next
  case (Cons m ms)
  let ?q = "hquery (cats ! m) (radii ! m)"
  let ?u = "[(''mytable'', T)]"
  note step = loop_body_step[OF Cons.prems(2-5), of svc cats radii m]
  have stop: ?case
    if "st' = st\<lparr>trace := trace st @ ev\<rparr>" and "res = Inl e"
      and "queries ev = map (\<lambda>m. (hquery (cats ! m) (radii ! m), ?u)) (take j (m # ms))"
      and "appends ev = []" and "j \<le> 1" and "j = 1 \<longrightarrow> m < length radii"
    for ev e j
    using that Cons.prems(5)
    by (intro exI[of _ "[]"] exI[of _ j])
       (cases j; simp add: upd_same queries_append appends_append)
  show ?case
  proof (cases "m < length cats \<and> m < length radii")
    case False
    with step Cons.prems(1) have "st' = st\<lparr>trace := trace st @ []\<rparr>" "res = Inl IndexError"
      by auto
    then show ?thesis by (rule stop[where j = 0]) simp_all
  next
    case inr: True
    show ?thesis
    proof (cases "svc (length (queries (trace st))) ?q ?u")
      case (Inl e)
      with step inr Cons.prems(1) have "st' = st\<lparr>trace := trace st @ [RunSync ?q ?u]\<rparr>" "res = Inl e"
        by auto
      then show ?thesis by (rule stop[where j = 1]) (use inr in simp_all)
    next
      case (Inr tbl)
      show ?thesis
      proof (cases "make_df (cats ! m) tbl")
        case (Inl e)
        with step inr Inr Cons.prems(1)
        have "st' = st\<lparr>trace := trace st @ [RunSync ?q ?u]\<rparr>" "res = Inl e"
          by auto
        then show ?thesis by (rule stop[where j = 1]) (use inr in simp_all)
      next
        case b: (Inr b)
        define st1 where "st1 = st\<lparr>heap := (heap st)[df := MultiIndexDFObject (d @ b)],
                                    trace := trace st @ [RunSync ?q ?u, Append b]\<rparr>"
        from step inr Inr b have body: "loop_body svc upl df cats radii m st = (Inr (), st1)"
          by (simp add: st1_def)
        with Cons.prems(1) have rest: "for_loop (loop_body svc upl df cats radii) ms st1 = (res, st')"
          by simp
        have neq: "upl \<noteq> df" using Cons.prems(3,5) by auto
        have h1: "upl < length (heap st1)" "heap st1 ! upl = TableObj T"
          "df < length (heap st1)" "heap st1 ! df = MultiIndexDFObject (d @ b)"
          using Cons.prems(2-5) neq by (simp_all add: st1_def)
        from Cons.IH[OF rest h1] obtain bs j where
          IH: "heap st' = (heap st1)[df := MultiIndexDFObject ((d @ b) @ concat bs)]"
            "appends (trace st') = appends (trace st1) @ bs"
            "queries (trace st') = queries (trace st1)
               @ map (\<lambda>m. (hquery (cats ! m) (radii ! m), ?u)) (take j ms)"
            "length bs \<le> j" "j \<le> length ms" "res = Inr () \<longrightarrow> length bs = length ms"
            "\<forall>k<length bs. \<forall>p\<in>set (bs ! k).
               band p = cats ! (ms ! k) \<and> flux p = 0.1 \<and> err p = 0.1"
            "\<forall>m\<in>set (take j ms). m < length radii"
          by blast
        have rows: "\<forall>k<length (b # bs). \<forall>p\<in>set ((b # bs) ! k).
               band p = cats ! ((m # ms) ! k) \<and> flux p = 0.1 \<and> err p = 0.1"
        proof (intro allI impI)
          fix k assume "k < length (b # bs)"
          then show "\<forall>p\<in>set ((b # bs) ! k).
               band p = cats ! ((m # ms) ! k) \<and> flux p = 0.1 \<and> err p = 0.1"
            using IH(7) make_df_rows[OF b] by (cases k) auto
        qed
        show ?thesis
          using IH(1-6) IH(8) rows inr
          by (intro exI[of _ "b # bs"] exI[of _ "Suc j"])
             (simp add: st1_def queries_append appends_append)
      qed
    qed
  qed
qed


lemma prelude_ok:
  assumes "src < length h" and "h ! src = TableObj t" and "upload_of t = Inr T"
    and "reg = Inr (svc # rest)"
  shows "HEASARC_get_lightcurves reg src cats radii (init h) =
     (case for_loop (loop_body svc (length h) (Suc (length h)) cats radii) [0..<length cats]
             (loop_start h T) of
        (Inl e, st') \<Rightarrow> (Inl e, st')
      | (Inr u, st') \<Rightarrow> (Inr (Suc (length h)), st'))"
  using assms
  by (auto simp: HEASARC_get_lightcurves_def upload_of_def seq_def getitem_cols_def getitem_def
      get_table_def lift_def new_obj_def setitem_def regsearch_def emit_def list_index_def
      ret_def init_def loop_start_def nth_append
      split: sum.splits prod.splits)

lemmas prelude_defs = HEASARC_get_lightcurves_def seq_def getitem_cols_def getitem_def
  get_table_def lift_def new_obj_def setitem_def regsearch_def emit_def list_index_def
  ret_def init_def

lemma prelude_no_table:
  assumes "\<not> (src < length h \<and> (\<exists>t. h ! src = TableObj t))"
  shows "HEASARC_get_lightcurves reg src cats radii (init h) = (Inl TypeError, init h)"
  using assms by (cases "h ! src") (simp_all add: prelude_defs)

lemma prelude_bad_table:
  assumes "src < length h" and "h ! src = TableObj t" and "upload_of t = Inl e"
  shows "\<exists>st'. HEASARC_get_lightcurves reg src cats radii (init h) = (Inl e, st')
     \<and> trace st' = [] \<and> take (length h) (heap st') = h \<and> length (heap st') \<le> length h + 1"
  using assms
  by (auto simp: prelude_defs upload_of_def nth_append split: sum.splits)

lemma prelude_no_service:
  assumes "src < length h" and "h ! src = TableObj t" and "upload_of t = Inr T"
    and "reg = Inl e \<or> (reg = Inr [] \<and> e = IndexError)"
  shows "HEASARC_get_lightcurves reg src cats radii (init h) =
     (Inl e, \<lparr> heap = h @ [TableObj T, MultiIndexDFObject []],
               trace = [RegSearch ''tap'' [''heasarc'']] \<rparr>)"
  using assms
  by (auto simp: prelude_defs upload_of_def nth_append split: sum.splits)

lemma prelude_fail:
  assumes "\<not> (\<exists>t T svc rest. src < length h \<and> h ! src = TableObj t \<and> upload_of t = Inr T
               \<and> reg = Inr (svc # rest))"
  shows "\<exists>e st'. HEASARC_get_lightcurves reg src cats radii (init h) = (Inl e, st')
     \<and> queries (trace st') = [] \<and> appends (trace st') = []
     \<and> take (length h) (heap st') = h \<and> length (heap st') \<le> length h + 2"
proof (cases "src < length h \<and> (\<exists>t. h ! src = TableObj t)")
  case False
  from prelude_no_table[OF False] show ?thesis by (simp add: init_def)
next
  case True
  then obtain t where t: "src < length h" "h ! src = TableObj t" by blast
  show ?thesis
  proof (cases "upload_of t")
    case (Inl e)
    from prelude_bad_table[OF t Inl, of reg cats radii] show ?thesis by auto
  next
    case (Inr T)
    have "(\<exists>e. reg = Inl e) \<or> reg = Inr []"
    proof (cases reg)
      case found: (Inr b)
      with assms t Inr show ?thesis by (cases b) auto
    qed auto
    then obtain e where "reg = Inl e \<or> (reg = Inr [] \<and> e = IndexError)" by auto
    from prelude_no_service[OF t Inr this, of cats radii] show ?thesis by simp
  qed
qed

lemma run_cases:
  assumes run: "HEASARC_get_lightcurves reg src cats radii (init h) = (res, st')"
  shows "((\<exists>e. res = Inl e) \<and> queries (trace st') = [] \<and> appends (trace st') = []
          \<and> take (length h) (heap st') = h \<and> length (heap st') \<le> length h + 2)
       \<or> (\<exists>t T svc rest bs j. src < length h \<and> h ! src = TableObj t \<and> upload_of t = Inr T
            \<and> reg = Inr (svc # rest)
            \<and> heap st' = h @ [TableObj T, MultiIndexDFObject (concat bs)]
            \<and> appends (trace st') = bs
            \<and> queries (trace st')
                 = map (\<lambda>m. (hquery (cats ! m) (radii ! m), [(''mytable'', T)])) [0..<j]
            \<and> length bs \<le> j \<and> j \<le> length cats \<and> j \<le> length radii
            \<and> (\<forall>k<length bs. \<forall>p\<in>set (bs ! k).
                  band p = cats ! k \<and> flux p = 0.1 \<and> err p = 0.1)
            \<and> ((res = Inr (Suc (length h)) \<and> length bs = length cats) \<or> (\<exists>e. res = Inl e)))"
proof (cases "\<exists>t T svc rest. src < length h \<and> h ! src = TableObj t \<and> upload_of t = Inr T
               \<and> reg = Inr (svc # rest)")
  case False
  from prelude_fail[OF False, of cats radii] run show ?thesis by auto
next
  case True
  then obtain t T svc rest where pre: "src < length h" "h ! src = TableObj t"
      "upload_of t = Inr T" "reg = Inr (svc # rest)"
    by blast
  let ?body = "loop_body svc (length h) (Suc (length h)) cats radii"
  obtain r st1 where loop: "for_loop ?body [0..<length cats] (loop_start h T) = (r, st1)"
    by (cases "for_loop ?body [0..<length cats] (loop_start h T)") auto
  from prelude_ok[OF pre, of cats radii] run loop
  have st: "st' = st1" and res: "res = (case r of Inl e \<Rightarrow> Inl e | Inr u \<Rightarrow> Inr (Suc (length h)))"
    by (auto split: sum.splits)
  have "\<exists>bs j. heap st1 = (heap (loop_start h T))[Suc (length h) := MultiIndexDFObject ([] @ concat bs)]
     \<and> appends (trace st1) = appends (trace (loop_start h T)) @ bs
     \<and> queries (trace st1) = queries (trace (loop_start h T))
          @ map (\<lambda>m. (hquery (cats ! m) (radii ! m), [(''mytable'', T)])) (take j [0..<length cats])
     \<and> length bs \<le> j \<and> j \<le> length [0..<length cats]
     \<and> (r = Inr () \<longrightarrow> length bs = length [0..<length cats])
     \<and> (\<forall>m\<in>set (take j [0..<length cats]). m < length radii)
     \<and> (\<forall>k<length bs. \<forall>p\<in>set (bs ! k).
           band p = cats ! ([0..<length cats] ! k) \<and> flux p = 0.1 \<and> err p = 0.1)"
    by (rule loop_any[OF loop]) (simp_all add: loop_start_def nth_append)
  then obtain bs j where L:
    "heap st1 = (heap (loop_start h T))[Suc (length h) := MultiIndexDFObject ([] @ concat bs)]"
    "appends (trace st1) = appends (trace (loop_start h T)) @ bs"
    "queries (trace st1) = queries (trace (loop_start h T))
          @ map (\<lambda>m. (hquery (cats ! m) (radii ! m), [(''mytable'', T)])) (take j [0..<length cats])"
    "length bs \<le> j" "j \<le> length [0..<length cats]"
    "r = Inr () \<longrightarrow> length bs = length [0..<length cats]"
    "\<forall>k<length bs. \<forall>p\<in>set (bs ! k).
           band p = cats ! ([0..<length cats] ! k) \<and> flux p = 0.1 \<and> err p = 0.1"
    "\<forall>m\<in>set (take j [0..<length cats]). m < length radii"
    by blast
  have heap: "heap st' = h @ [TableObj T, MultiIndexDFObject (concat bs)]"
    using L(1) st by (simp add: loop_start_def list_update_append)
  have app: "appends (trace st') = bs" using L(2) st by (simp add: loop_start_def)
  have jn: "j \<le> length cats" using L(5) by simp
  have qs: "queries (trace st')
      = map (\<lambda>m. (hquery (cats ! m) (radii ! m), [(''mytable'', T)])) [0..<j]"
    using L(3) st jn by (simp add: loop_start_def take_upt)
  have rows: "\<forall>k<length bs. \<forall>p\<in>set (bs ! k).
                  band p = cats ! k \<and> flux p = 0.1 \<and> err p = 0.1"
  proof (intro allI impI)
    fix k assume k: "k < length bs"
    with L(4) jn have "k < length cats" by simp
    then have "[0..<length cats] ! k = k" by simp
    with L(7) k show "\<forall>p\<in>set (bs ! k). band p = cats ! k \<and> flux p = 0.1 \<and> err p = 0.1"
      by auto
  qed
  have jr: "j \<le> length radii"
  proof (cases j)
    case 0
    then show ?thesis by simp
  next
    case (Suc i)
    with jn have "i \<in> set (take j [0..<length cats])" by (simp add: take_upt)
    with L(8) Suc show ?thesis by auto
  qed
  have out: "(res = Inr (Suc (length h)) \<and> length bs = length cats) \<or> (\<exists>e. res = Inl e)"
    using res L(6) by (cases r) auto
  show ?thesis
    using pre heap app qs L(4) jn jr rows out by blast
qed

subsection \<open>Runs in which the first catalogs succeed\<close>

lemma queries_concat_pairs:
  "queries (concat (map (\<lambda>m. [RunSync (f m) u, Append (b m)]) ms)) = map (\<lambda>m. (f m, u)) ms"
  by (induction ms) auto

lemma appends_concat_pairs:
  "appends (concat (map (\<lambda>m. [RunSync (f m) u, Append (b m)]) ms)) = map b ms"
  by (induction ms) auto

lemma after_catalogs_facts:
  "length (queries (trace (after_catalogs h T cats radii b n))) = n"
  "heap (after_catalogs h T cats radii b n) ! length h = TableObj T"
  "heap (after_catalogs h T cats radii b n) ! Suc (length h)
     = MultiIndexDFObject (concat (map b [0..<n]))"
  "length (heap (after_catalogs h T cats radii b n)) = length h + 2"
  "after_catalogs h T cats radii b 0 = loop_start h T"
  by (simp_all add: after_catalogs_def queries_concat_pairs nth_append loop_start_def)

lemma loop_prefix:
  assumes "n \<le> length cats" and "n \<le> length radii"
    and "\<forall>m<n. \<exists>tbl. svc m (hquery (cats ! m) (radii ! m)) [(''mytable'', T)] = Inr tbl
                    \<and> make_df (cats ! m) tbl = Inr (b m)"
  shows "for_loop (loop_body svc (length h) (Suc (length h)) cats radii) [0..<n] (loop_start h T)
           = (Inr (), after_catalogs h T cats radii b n)"
  using assms
proof (induction n)
  case 0
  then show ?case by (simp add: after_catalogs_facts)
next
  case (Suc n)
  let ?S = "after_catalogs h T cats radii b n"
  from Suc have pre: "for_loop (loop_body svc (length h) (Suc (length h)) cats radii) [0..<n]
      (loop_start h T) = (Inr (), ?S)"
    by simp
  from Suc.prems obtain tbl where
    tbl: "svc n (hquery (cats ! n) (radii ! n)) [(''mytable'', T)] = Inr tbl"
      "make_df (cats ! n) tbl = Inr (b n)"
    by auto
  have inr: "n < length cats \<and> n < length radii" using Suc.prems by simp
  have step: "loop_body svc (length h) (Suc (length h)) cats radii n ?S
       = (Inr (), after_catalogs h T cats radii b (Suc n))"
    using inr tbl
    by (subst loop_body_step[where T = T and d = "concat (map b [0..<n])"])
       (simp_all add: after_catalogs_facts, simp add: after_catalogs_def list_update_append)
  show ?case
    by (simp add: for_loop_append pre step)
qed

lemma run_split:
  assumes "src < length h" and "h ! src = TableObj t" and "upload_of t = Inr T"
    and "reg = Inr (svc # rest)"
    and "i \<le> length cats" and "i \<le> length radii"
    and "\<forall>m<i. \<exists>tbl. svc m (hquery (cats ! m) (radii ! m)) [(''mytable'', T)] = Inr tbl
                    \<and> make_df (cats ! m) tbl = Inr (b m)"
  shows "HEASARC_get_lightcurves reg src cats radii (init h) =
     (case for_loop (loop_body svc (length h) (Suc (length h)) cats radii) [i..<length cats]
             (after_catalogs h T cats radii b i) of
        (Inl e, st') \<Rightarrow> (Inl e, st')
      | (Inr u, st') \<Rightarrow> (Inr (Suc (length h)), st'))"
proof -
  have "[0..<length cats] = [0..<i] @ [i..<length cats]"
    using assms(5) by (metis le_add_diff_inverse upt_add_eq_append zero_le)
  then show ?thesis
    by (simp add: prelude_ok[OF assms(1-4)] for_loop_append loop_prefix[where svc = svc and b = b and T = T and cats = cats and radii = radii and n = i, OF assms(5-7)])
qed

lemmas ex_defs = ex_source_def ex_upload_def ex_batch_def ex_hits_def ex_service_def
  ex_empty_def ex_quiet_service_def

lemma ex_upload_of: "upload_of ex_source = Inr ex_upload"
  by (simp add: upload_of_def tbl_getitem_def ra_deg_def dec_deg_def tbl_setitem_def ex_defs)

lemma ex_make_df: "make_df ''CAT1'' ex_hits = Inr ex_batch"
  by (simp add: make_df_def tbl_len_def tbl_getitem_def ex_defs upt_rec)

lemma loop_body_take:
  "loop_body svc upl df cats (take (length cats) radii) m = loop_body svc upl df cats radii m"
  by (simp add: loop_body_def seq_def lift_def list_index_def fun_eq_iff)

lemma after_catalogs_cong:
  assumes "\<forall>m<n. b m = b' m"
  shows "after_catalogs h T cats radii b n = after_catalogs h T cats radii b' n"
proof -
  have m1: "map b [0..<n] = map b' [0..<n]" using assms by simp
  have m2: "map (\<lambda>m. [RunSync (hquery (cats ! m) (radii ! m)) [(''mytable'', T)], Append (b m)])
          [0..<n]
      = map (\<lambda>m. [RunSync (hquery (cats ! m) (radii ! m)) [(''mytable'', T)], Append (b' m)])
          [0..<n]"
    using assms by simp
  show ?thesis by (simp only: after_catalogs_def m1 m2)
qed

lemma after_catalogs_Suc:
  "after_catalogs h T cats radii b (Suc n) =
     \<lparr> heap = h @ [TableObj T, MultiIndexDFObject (concat (map b [0..<n]) @ b n)],
       trace = trace (after_catalogs h T cats radii b n)
               @ [RunSync (hquery (cats ! n) (radii ! n)) [(''mytable'', T)], Append (b n)] \<rparr>"
  by (simp add: after_catalogs_def)

lemma make_df_empty:
  assumes "is_empty_result tbl"
  shows "make_df cat tbl = Inr []"
proof -
  have cols: "c = []" if "(name, c) \<in> set tbl" for name c
    using assms that by (auto simp: is_empty_result_def list_all_iff)
  have get: "tbl_getitem tbl name = Inr []" if "name \<in> set (map fst tbl)" for name
  proof -
    from that obtain c where "map_of tbl name = Some c"
      by (cases "map_of tbl name") (auto simp: map_of_eq_None_iff)
    moreover from this have "c = []" using cols by (auto dest: map_of_SomeD)
    ultimately show ?thesis by (simp add: tbl_getitem_def)
  qed
  have len: "tbl_len tbl = 0"
    using cols by (cases tbl) (auto simp: tbl_len_def)
  from assms have "''time'' \<in> set (map fst tbl)" "''object_id'' \<in> set (map fst tbl)"
      "''label'' \<in> set (map fst tbl)"
    by (simp_all add: is_empty_result_def)
  then show ?thesis
    by (simp add: make_df_def get len)
qed

lemma run_complete:
  assumes "src < length h" and "h ! src = TableObj t" and "upload_of t = Inr T"
    and "reg = Inr (svc # rest)" and "length cats \<le> length radii"
    and "\<forall>m<length cats. \<exists>tbl. svc m (hquery (cats ! m) (radii ! m)) [(''mytable'', T)] = Inr tbl
                    \<and> make_df (cats ! m) tbl = Inr (b m)"
  shows "HEASARC_get_lightcurves reg src cats radii (init h)
           = (Inr (Suc (length h)), after_catalogs h T cats radii b (length cats))"
proof -
  have le: "length cats \<le> length cats" by simp
  show ?thesis
    by (simp add: run_split[where svc = svc and b = b and T = T and cats = cats
          and radii = radii and i = "length cats", OF assms(1-4) le assms(5,6)])
qed

subsection \<open>The claims\<close>

lemmas run_defs = HEASARC_get_lightcurves_def seq_def getitem_cols_def get_table_def init_def
  lift_def tbl_getitem_def ex_source_def new_obj_def getitem_def ra_deg_def dec_deg_def
  setitem_def tbl_setitem_def regsearch_def emit_def list_index_def loop_body_def run_sync_def
  ret_def ex_service_def hquery_def make_df_def ex_hits_def tbl_len_def append_def upt_rec

text \<open>
  C10. The call never modifies the caller's \<^verbatim>\<open>source_table\<close>: whatever the
  outcome, every object that existed before the call, the source table among them, is the
  same afterwards. The float columns \<^verbatim>\<open>ra\<close> and \<^verbatim>\<open>dec\<close> go to
  the projected copy, which is a new object.
\<close>

theorem source_table_unchanged:
  "take (length h) (heap (snd (HEASARC_get_lightcurves reg source_table cats radii (init h)))) = h
   \<and> (source_table < length h \<longrightarrow>
        heap (snd (HEASARC_get_lightcurves reg source_table cats radii (init h))) ! source_table
          = h ! source_table)"
proof -
  obtain res st' where run: "HEASARC_get_lightcurves reg source_table cats radii (init h) = (res, st')"
    by (cases "HEASARC_get_lightcurves reg source_table cats radii (init h)") auto
  from run_cases[OF run] have tk: "take (length h) (heap st') = h" by auto
  have "heap st' ! source_table = h ! source_table" if "source_table < length h"
    using that tk by (metis nth_take)
  with tk run show ?thesis by simp
qed

theorem source_table_unchanged_witness:
  "(0::nat) < length [TableObj ex_source]
   \<and> heap (snd (HEASARC_get_lightcurves (Inr [ex_service]) 0 [''CAT1''] [5]
                  (init [TableObj ex_source]))) ! 0 = TableObj ex_source"
proof -
  have h: "(0::nat) < length [TableObj ex_source]" by simp
  show ?thesis
    using h source_table_unchanged[of "[TableObj ex_source]" "Inr [ex_service]" 0 "[''CAT1'']" "[5]"]
    by simp
qed

text \<open>
  C9. With an empty catalog list no query is issued and no batch is appended, whatever the
  cutoff list; an accumulator the call returns holds no rows; and the call does return one
  when the source table has the columns it needs and the registry knows a service.
\<close>

theorem empty_catalog_list:
  "queries (trace (snd (HEASARC_get_lightcurves reg src [] radii (init h)))) = []
   \<and> appends (trace (snd (HEASARC_get_lightcurves reg src [] radii (init h)))) = []
   \<and> (\<forall>df. fst (HEASARC_get_lightcurves reg src [] radii (init h)) = Inr df \<longrightarrow>
         df < length (heap (snd (HEASARC_get_lightcurves reg src [] radii (init h))))
         \<and> heap (snd (HEASARC_get_lightcurves reg src [] radii (init h))) ! df
             = MultiIndexDFObject [])
   \<and> (src < length h \<and> h ! src = TableObj t \<and> upload_of t = Inr T \<and> reg = Inr (svc # rest)
        \<longrightarrow> fst (HEASARC_get_lightcurves reg src [] radii (init h)) = Inr (Suc (length h)))"
proof -
  obtain res st' where run: "HEASARC_get_lightcurves reg src [] radii (init h) = (res, st')"
    by (cases "HEASARC_get_lightcurves reg src [] radii (init h)") auto
  have ret: "fst (HEASARC_get_lightcurves reg src [] radii (init h)) = Inr (Suc (length h))"
    if "src < length h" "h ! src = TableObj t" "upload_of t = Inr T" "reg = Inr (svc # rest)"
    by (simp add: prelude_ok[OF that])
  from run_cases[OF run] have "queries (trace st') = [] \<and> appends (trace st') = []
     \<and> (\<forall>df. res = Inr df \<longrightarrow> df < length (heap st') \<and> heap st' ! df = MultiIndexDFObject [])"
    by (auto simp: nth_append)
  with ret show ?thesis
    unfolding run by simp
qed

theorem empty_catalog_list_witness:
  "fst (HEASARC_get_lightcurves (Inr [ex_service]) 0 [] [] (init [TableObj ex_source])) = Inr 2
   \<and> heap (snd (HEASARC_get_lightcurves (Inr [ex_service]) 0 [] [] (init [TableObj ex_source]))) ! 2
       = MultiIndexDFObject []"
proof -
  have p: "0 < length [TableObj ex_source] \<and> [TableObj ex_source] ! 0 = TableObj ex_source
      \<and> upload_of ex_source = Inr ex_upload
      \<and> (Inr [ex_service] :: registry) = Inr (ex_service # [])"
    by (simp add: ex_upload_of)
  show ?thesis
    using p empty_catalog_list[where reg = "Inr [ex_service]" and src = 0 and radii = "[]"
        and h = "[TableObj ex_source]" and t = ex_source and T = ex_upload and svc = ex_service
        and rest = "[]"]
    by (simp add: numeral_2_eq_2)
qed

text \<open>
  Whenever a call returns normally, it has appended one batch per catalog, and the rows of
  the batch of catalog \<open>i\<close> carry that catalog's name as band and \<open>0.1\<close> as flux
  and as error.
\<close>

lemma batches_on_return:
  assumes "fst (HEASARC_get_lightcurves reg src cats radii (init h)) = Inr df"
  shows "length (appends (trace (snd (HEASARC_get_lightcurves reg src cats radii (init h)))))
           = length cats
     \<and> (\<forall>i<length cats.
          \<forall>p\<in>set (appends (trace (snd (HEASARC_get_lightcurves reg src cats radii (init h)))) ! i).
            band p = cats ! i \<and> flux p = 0.1 \<and> err p = 0.1)"
proof -
  obtain res st' where run: "HEASARC_get_lightcurves reg src cats radii (init h) = (res, st')"
    by (cases "HEASARC_get_lightcurves reg src cats radii (init h)") auto
  with assms have "res = Inr df" by simp
  with run_cases[OF run] show ?thesis
    unfolding run by auto
qed

text \<open>
  C4. With as many cutoffs as catalogs, a source table that has the columns the call needs,
  and a service that answers every query with a table, the call returns normally and has
  appended exactly one batch per catalog, in the order of the list: the batch built from the
  answer for that catalog. Every row of the batch of catalog \<open>i\<close> has band
  \<open>cats ! i\<close>, flux \<open>0.1\<close> and error \<open>0.1\<close>. The list may be empty.
\<close>

theorem one_batch_per_catalog:
  assumes "src < length h" and "h ! src = TableObj t" and "upload_of t = Inr T"
    and "reg = Inr (svc # rest)" and "length radii = length cats"
    and "\<forall>m<length cats. \<exists>tbl. svc m (hquery (cats ! m) (radii ! m)) [(''mytable'', T)] = Inr tbl
                    \<and> make_df (cats ! m) tbl = Inr (b m)"
  shows "fst (HEASARC_get_lightcurves reg src cats radii (init h)) = Inr (Suc (length h))
     \<and> appends (trace (snd (HEASARC_get_lightcurves reg src cats radii (init h))))
         = map b [0..<length cats]
     \<and> (\<forall>i<length cats. \<forall>p\<in>set (b i). band p = cats ! i \<and> flux p = 0.1 \<and> err p = 0.1)"
proof -
  have le: "length cats \<le> length radii" using assms(5) by simp
  have run: "HEASARC_get_lightcurves reg src cats radii (init h)
           = (Inr (Suc (length h)), after_catalogs h T cats radii b (length cats))"
    by (rule run_complete[OF assms(1-4) le assms(6)])
  have rows: "band p = cats ! i \<and> flux p = 0.1 \<and> err p = 0.1"
    if "i < length cats" and "p \<in> set (b i)" for i p
  proof -
    from assms(6) that(1) obtain tbl where "make_df (cats ! i) tbl = Inr (b i)" by blast
    from make_df_rows[OF this that(2)] show ?thesis .
  qed
  show ?thesis
    unfolding run using rows
    by (simp add: after_catalogs_def appends_concat_pairs)
qed

theorem one_batch_per_catalog_witness:
  "fst (HEASARC_get_lightcurves (Inr [ex_service]) 0 [''CAT1'', ''CAT1''] [5, 1]
          (init [TableObj ex_source])) = Inr 2
   \<and> appends (trace (snd (HEASARC_get_lightcurves (Inr [ex_service]) 0 [''CAT1'', ''CAT1'']
          [5, 1] (init [TableObj ex_source])))) = [ex_batch, ex_batch]
   \<and> map band ex_batch = [''CAT1'', ''CAT1'']
   \<and> map flux ex_batch = [0.1, 0.1] \<and> map err ex_batch = [0.1, 0.1]"
proof -
  have h1: "0 < length [TableObj ex_source]" and h2: "[TableObj ex_source] ! 0 = TableObj ex_source"
    and h4: "(Inr [ex_service] :: registry) = Inr (ex_service # [])"
    and h5: "length [5, 1 :: real] = length [''CAT1'', ''CAT1'']"
    by simp_all
  have h6: "\<forall>m<length [''CAT1'', ''CAT1'']. \<exists>tbl.
               ex_service m (hquery ([''CAT1'', ''CAT1''] ! m) ([5, 1] ! m))
                 [(''mytable'', ex_upload)] = Inr tbl
             \<and> make_df ([''CAT1'', ''CAT1''] ! m) tbl = Inr ((\<lambda>m. ex_batch) m)"
    by (simp add: ex_service_def hquery_def ex_make_df less_Suc_eq)
  note c = one_batch_per_catalog[where b = "\<lambda>m. ex_batch" and svc = ex_service
        and T = ex_upload, OF h1 h2 ex_upload_of h4 h5 h6]
  have rows: "map band ex_batch = [''CAT1'', ''CAT1'']
      \<and> map flux ex_batch = [0.1, 0.1] \<and> map err ex_batch = [0.1, 0.1]"
    by (simp add: ex_batch_def)
  from c rows show ?thesis
    by (simp add: upt_rec numeral_2_eq_2)
qed

text \<open>The error-radius filter of the join is strict.\<close>

lemma hquery_strict:
  "selects g (hquery cat r) \<rho> \<Longrightarrow> \<exists>x. \<rho> ''cat'' ''error_radius'' = Some x \<and> x < r"
  by (cases "\<rho> ''cat'' ''error_radius''")
     (auto simp: selects_def hquery_def split: option.splits val.splits)

text \<open>
  C5. The \<open>k\<close>-th query a call issues is the join for catalog \<open>k\<close> with cutoff
  \<open>k\<close>. Its filter rejects every row whose error radius equals the cutoff, and every
  row it lets through has an error radius strictly below the cutoff, whatever the geometry
  of the service decides.
\<close>

theorem strict_error_radius_cutoff:
  assumes "k < length (queries (trace (snd (HEASARC_get_lightcurves reg src cats radii (init h)))))"
  shows "k < length cats \<and> k < length radii
     \<and> fst (queries (trace (snd (HEASARC_get_lightcurves reg src cats radii (init h)))) ! k)
         = hquery (cats ! k) (radii ! k)
     \<and> (\<forall>g \<rho>. \<rho> ''cat'' ''error_radius'' = Some (radii ! k) \<longrightarrow>
           \<not> selects g (fst (queries (trace (snd (HEASARC_get_lightcurves reg src cats radii
                                (init h)))) ! k)) \<rho>)
     \<and> (\<forall>g \<rho>. selects g (fst (queries (trace (snd (HEASARC_get_lightcurves reg src cats radii
                                (init h)))) ! k)) \<rho> \<longrightarrow>
           (\<exists>x. \<rho> ''cat'' ''error_radius'' = Some x \<and> x < radii ! k))"
proof -
  obtain res st' where run: "HEASARC_get_lightcurves reg src cats radii (init h) = (res, st')"
    by (cases "HEASARC_get_lightcurves reg src cats radii (init h)") auto
  from assms run have k: "k < length (queries (trace st'))" by simp
  with run_cases[OF run] obtain T j where
    qs: "queries (trace st')
           = map (\<lambda>m. (hquery (cats ! m) (radii ! m), [(''mytable'', T)])) [0..<j]"
    and j: "j \<le> length cats" "j \<le> length radii"
    by auto
  from k qs have kj: "k < j" by simp
  with qs have q: "fst (queries (trace st') ! k) = hquery (cats ! k) (radii ! k)" by simp
  have strict: "\<exists>x. \<rho> ''cat'' ''error_radius'' = Some x \<and> x < radii ! k"
    if "selects g (hquery (cats ! k) (radii ! k)) \<rho>" for g \<rho>
    using that by (rule hquery_strict)
  then have excl: "\<not> selects g (hquery (cats ! k) (radii ! k)) \<rho>"
    if "\<rho> ''cat'' ''error_radius'' = Some (radii ! k)" for g \<rho>
    using that by fastforce
  show ?thesis
    unfolding run snd_conv q using kj j strict excl by auto
qed

theorem strict_error_radius_cutoff_witness:
  "0 < length (queries (trace (snd (HEASARC_get_lightcurves (Inr [ex_service]) 0 [''CAT1''] [5]
         (init [TableObj ex_source])))))
   \<and> ex_boundary_row ''cat'' ''error_radius'' = Some ([5] ! 0)
   \<and> \<not> selects (\<lambda>p c. True)
         (fst (queries (trace (snd (HEASARC_get_lightcurves (Inr [ex_service]) 0 [''CAT1''] [5]
                (init [TableObj ex_source])))) ! 0)) ex_boundary_row"
proof -
  have k: "0 < length (queries (trace (snd (HEASARC_get_lightcurves (Inr [ex_service]) 0
              [''CAT1''] [5] (init [TableObj ex_source])))))"
    by (simp add: run_defs)
  have b: "ex_boundary_row ''cat'' ''error_radius'' = Some ([5] ! 0)"
    by (simp add: ex_boundary_row_def)
  show ?thesis
    using k b strict_error_radius_cutoff[OF k] by blast
qed

text \<open>
  C8. Every query of a call uploads the same table under the name \<^verbatim>\<open>mytable\<close>:
  the projection of the source table to \<^verbatim>\<open>object_id\<close>, \<^verbatim>\<open>label\<close>,
  \<^verbatim>\<open>ra\<close>, \<^verbatim>\<open>dec\<close>. The projection is made once, before the loop:
  the call leaves exactly one new table object behind, and that object still holds the
  projection when the call ends.
\<close>

theorem upload_table_invariant:
  assumes "(q, u) \<in> set (queries (trace (snd (HEASARC_get_lightcurves reg src cats radii (init h)))))"
  shows "\<exists>t T rows. src < length h \<and> h ! src = TableObj t \<and> upload_of t = Inr T
     \<and> u = [(''mytable'', T)]
     \<and> heap (snd (HEASARC_get_lightcurves reg src cats radii (init h)))
         = h @ [TableObj T, MultiIndexDFObject rows]"
proof -
  obtain res st' where run: "HEASARC_get_lightcurves reg src cats radii (init h) = (res, st')"
    by (cases "HEASARC_get_lightcurves reg src cats radii (init h)") auto
  from assms run have mem: "(q, u) \<in> set (queries (trace st'))" by simp
  then have "queries (trace st') \<noteq> []" by auto
  with run_cases[OF run] obtain t T bs j where
    pre: "src < length h" "h ! src = TableObj t" "upload_of t = Inr T"
    and hp: "heap st' = h @ [TableObj T, MultiIndexDFObject (concat bs)]"
    and qs: "queries (trace st')
           = map (\<lambda>m. (hquery (cats ! m) (radii ! m), [(''mytable'', T)])) [0..<j]"
    by auto
  from mem qs have "u = [(''mytable'', T)]" by auto
  with pre hp show ?thesis unfolding run by auto
qed

theorem upload_table_invariant_witness:
  "(hquery ''CAT1'' 1, [(''mytable'', [(''object_id'', [IntC 1, IntC 2]),
        (''label'', [StrC ''A'', StrC ''A'']), (''ra'', [FloatC 10, FloatC 30]),
        (''dec'', [FloatC 20, FloatC 40])])])
     \<in> set (queries (trace (snd (HEASARC_get_lightcurves (Inr [ex_service]) 0
          [''CAT1'', ''CAT1''] [5, 1] (init [TableObj ex_source])))))
   \<and> (\<exists>rows. heap (snd (HEASARC_get_lightcurves (Inr [ex_service]) 0
          [''CAT1'', ''CAT1''] [5, 1] (init [TableObj ex_source])))
        = [TableObj ex_source] @ [TableObj [(''object_id'', [IntC 1, IntC 2]),
        (''label'', [StrC ''A'', StrC ''A'']), (''ra'', [FloatC 10, FloatC 30]),
        (''dec'', [FloatC 20, FloatC 40])], MultiIndexDFObject rows])"
proof -
  have m: "(hquery ''CAT1'' 1, [(''mytable'', [(''object_id'', [IntC 1, IntC 2]),
        (''label'', [StrC ''A'', StrC ''A'']), (''ra'', [FloatC 10, FloatC 30]),
        (''dec'', [FloatC 20, FloatC 40])])])
     \<in> set (queries (trace (snd (HEASARC_get_lightcurves (Inr [ex_service]) 0
          [''CAT1'', ''CAT1''] [5, 1] (init [TableObj ex_source])))))"
    by (simp add: run_defs)
  show ?thesis
    using m upload_table_invariant[OF m] by auto
qed






text \<open>
  C2, as stated, fails. With two catalogs and one cutoff the first catalog is queried and
  its batch appended before the failure; with one catalog and two cutoffs the call returns
  normally.
\<close>

theorem lengths_not_checked_counterexample:
  "length [''CAT1'', ''CAT1''] \<noteq> length [5 :: real]
   \<and> fst (HEASARC_get_lightcurves (Inr [ex_service]) 0 [''CAT1'', ''CAT1''] [5]
            (init [TableObj ex_source])) = Inl IndexError
   \<and> trace (snd (HEASARC_get_lightcurves (Inr [ex_service]) 0 [''CAT1'', ''CAT1''] [5]
            (init [TableObj ex_source])))
       = [RegSearch ''tap'' [''heasarc''], RunSync (hquery ''CAT1'' 5) [(''mytable'', ex_upload)],
          Append ex_batch]
   \<and> length [''CAT1''] \<noteq> length [5, 1 :: real]
   \<and> fst (HEASARC_get_lightcurves (Inr [ex_service]) 0 [''CAT1''] [5, 1]
            (init [TableObj ex_source])) = Inr 2"
  by (simp add: run_defs ex_defs)

text \<open>
  C2, amended. The lengths of the two lists are never compared. Cutoffs beyond the number
  of catalogs are ignored. When there are fewer cutoffs than catalogs, the call raises
  \<^verbatim>\<open>IndexError\<close> only when the loop reaches the first catalog without a cutoff:
  by then the registry has been searched, and the earlier catalogs have been queried and
  their batches appended (if those queries succeed).
\<close>

theorem lengths_not_checked:
  "HEASARC_get_lightcurves reg src cats radii
     = HEASARC_get_lightcurves reg src cats (take (length cats) radii)
   \<and> (length radii < length cats \<and> src < length h \<and> h ! src = TableObj t
        \<and> upload_of t = Inr T \<and> reg = Inr (svc # rest)
        \<and> (\<forall>m<length radii. \<exists>tbl.
              svc m (hquery (cats ! m) (radii ! m)) [(''mytable'', T)] = Inr tbl
              \<and> make_df (cats ! m) tbl = Inr (b m))
      \<longrightarrow> HEASARC_get_lightcurves reg src cats radii (init h)
            = (Inl IndexError, after_catalogs h T cats radii b (length radii)))"
proof (intro conjI impI)
  have "loop_body svc upl df cats (take (length cats) radii) = loop_body svc upl df cats radii"
    for svc upl df
    by (rule ext) (rule loop_body_take)
  then show "HEASARC_get_lightcurves reg src cats radii
     = HEASARC_get_lightcurves reg src cats (take (length cats) radii)"
    by (simp add: HEASARC_get_lightcurves_def)
next
  assume a: "length radii < length cats \<and> src < length h \<and> h ! src = TableObj t
        \<and> upload_of t = Inr T \<and> reg = Inr (svc # rest)
        \<and> (\<forall>m<length radii. \<exists>tbl.
              svc m (hquery (cats ! m) (radii ! m)) [(''mytable'', T)] = Inr tbl
              \<and> make_df (cats ! m) tbl = Inr (b m))"
  let ?S = "after_catalogs h T cats radii b (length radii)"
  have step: "loop_body svc (length h) (Suc (length h)) cats radii (length radii) ?S
       = (Inl IndexError, ?S)"
    by (subst loop_body_step[where T = T and d = "concat (map b [0..<length radii])"])
       (simp_all add: after_catalogs_facts)
  from a have pre: "src < length h" "h ! src = TableObj t" "upload_of t = Inr T"
      "reg = Inr (svc # rest)" "length radii \<le> length cats" "length radii \<le> length radii"
      "\<forall>m<length radii. \<exists>tbl.
              svc m (hquery (cats ! m) (radii ! m)) [(''mytable'', T)] = Inr tbl
              \<and> make_df (cats ! m) tbl = Inr (b m)"
    by simp_all
  from a have lt: "length radii < length cats" by simp
  show "HEASARC_get_lightcurves reg src cats radii (init h) = (Inl IndexError, ?S)"
    using lt
    by (simp add: run_split[where svc = svc and b = b and T = T and cats = cats
          and radii = radii and i = "length radii", OF pre] upt_conv_Cons step)
qed

theorem lengths_not_checked_witness:
  "HEASARC_get_lightcurves (Inr [ex_service]) 0 [''CAT1''] [5, 1]
     = HEASARC_get_lightcurves (Inr [ex_service]) 0 [''CAT1''] [5]
   \<and> HEASARC_get_lightcurves (Inr [ex_service]) 0 [''CAT1'', ''CAT1''] [5]
        (init [TableObj ex_source])
       = (Inl IndexError,
          after_catalogs [TableObj ex_source] ex_upload [''CAT1'', ''CAT1''] [5] (\<lambda>m. ex_batch) 1)"
proof -
  have a: "HEASARC_get_lightcurves (Inr [ex_service]) 0 [''CAT1''] [5, 1]
     = HEASARC_get_lightcurves (Inr [ex_service]) 0 [''CAT1''] [5]"
    using lengths_not_checked[where reg = "Inr [ex_service]" and src = 0 and cats = "[''CAT1'']"
        and radii = "[5, 1]"]
    by simp
  have h: "length [5 :: real] < length [''CAT1'', ''CAT1''] \<and> 0 < length [TableObj ex_source]
      \<and> [TableObj ex_source] ! 0 = TableObj ex_source \<and> upload_of ex_source = Inr ex_upload
      \<and> (Inr [ex_service] :: registry) = Inr (ex_service # [])
      \<and> (\<forall>m<length [5 :: real]. \<exists>tbl.
            ex_service m (hquery ([''CAT1'', ''CAT1''] ! m) ([5] ! m)) [(''mytable'', ex_upload)]
              = Inr tbl
            \<and> make_df ([''CAT1'', ''CAT1''] ! m) tbl = Inr ((\<lambda>m. ex_batch) m))"
    by (simp add: ex_upload_of ex_service_def hquery_def ex_make_df)
  have b: "HEASARC_get_lightcurves (Inr [ex_service]) 0 [''CAT1'', ''CAT1''] [5]
        (init [TableObj ex_source])
       = (Inl IndexError,
          after_catalogs [TableObj ex_source] ex_upload [''CAT1'', ''CAT1''] [5] (\<lambda>m. ex_batch) 1)"
    using h lengths_not_checked[where reg = "Inr [ex_service]" and src = 0
        and cats = "[''CAT1'', ''CAT1'']" and radii = "[5]" and h = "[TableObj ex_source]"
        and t = ex_source and T = ex_upload and svc = ex_service and rest = "[]"
        and b = "\<lambda>m. ex_batch"]
    by simp
  from a b show ?thesis by simp
qed

text \<open>
  C6. If the query for catalog \<open>i\<close> returns an empty result set, the iteration
  completes without an exception and appends an empty batch: the heap, and with it the
  accumulator, is what it was before the iteration. The call then goes on with the
  catalogs after \<open>i\<close>.
\<close>

theorem empty_result_continues:
  assumes "src < length h" and "h ! src = TableObj t" and "upload_of t = Inr T"
    and "reg = Inr (svc # rest)"
    and "i < length cats" and "i < length radii"
    and "\<forall>m<i. \<exists>tbl. svc m (hquery (cats ! m) (radii ! m)) [(''mytable'', T)] = Inr tbl
                    \<and> make_df (cats ! m) tbl = Inr (b m)"
    and "svc i (hquery (cats ! i) (radii ! i)) [(''mytable'', T)] = Inr tbl"
    and "is_empty_result tbl"
  shows "loop_body svc (length h) (Suc (length h)) cats radii i (after_catalogs h T cats radii b i)
           = (Inr (), after_catalogs h T cats radii (b(i := [])) (Suc i))
     \<and> heap (after_catalogs h T cats radii (b(i := [])) (Suc i))
         = heap (after_catalogs h T cats radii b i)
     \<and> appends (trace (after_catalogs h T cats radii (b(i := [])) (Suc i)))
         = appends (trace (after_catalogs h T cats radii b i)) @ [[]]
     \<and> HEASARC_get_lightcurves reg src cats radii (init h) =
         (case for_loop (loop_body svc (length h) (Suc (length h)) cats radii)
                 [Suc i..<length cats] (after_catalogs h T cats radii (b(i := [])) (Suc i)) of
            (Inl e, st') \<Rightarrow> (Inl e, st')
          | (Inr u, st') \<Rightarrow> (Inr (Suc (length h)), st'))"
proof -
  let ?S = "after_catalogs h T cats radii b i"
  let ?S' = "after_catalogs h T cats radii (b(i := [])) (Suc i)"
  have same: "?S' = ?S\<lparr>trace := trace ?S @ [RunSync (hquery (cats ! i) (radii ! i))
                                         [(''mytable'', T)], Append []]\<rparr>"
  proof -
    have "after_catalogs h T cats radii (b(i := [])) i = ?S"
      by (rule after_catalogs_cong) simp
    then show ?thesis
      by (simp add: after_catalogs_Suc) (simp add: after_catalogs_def)
  qed
  have step: "loop_body svc (length h) (Suc (length h)) cats radii i ?S = (Inr (), ?S')"
    unfolding same using assms(5,6,8) make_df_empty[OF assms(9), of "cats ! i"]
    by (subst loop_body_step[where T = T and d = "concat (map b [0..<i])"])
       (simp_all add: after_catalogs_facts, simp add: after_catalogs_def list_update_append)
  have le: "i \<le> length cats" "i \<le> length radii" using assms(5,6) by simp_all
  have run: "HEASARC_get_lightcurves reg src cats radii (init h) =
         (case for_loop (loop_body svc (length h) (Suc (length h)) cats radii)
                 [Suc i..<length cats] ?S' of
            (Inl e, st') \<Rightarrow> (Inl e, st')
          | (Inr u, st') \<Rightarrow> (Inr (Suc (length h)), st'))"
    using assms(5)
    by (simp add: run_split[where svc = svc and b = b and T = T and cats = cats
          and radii = radii and i = i, OF assms(1-4) le assms(7)] upt_conv_Cons step)
  show ?thesis
    using step run by (simp add: same appends_append)
qed

theorem empty_result_continues_witness:
  "is_empty_result ex_empty
   \<and> HEASARC_get_lightcurves (Inr [ex_quiet_service]) 0 [''CAT0'', ''CAT1''] [5, 1]
         (init [TableObj ex_source])
       = (Inr 2, after_catalogs [TableObj ex_source] ex_upload [''CAT0'', ''CAT1''] [5, 1]
                   ((\<lambda>m. ex_batch)(0 := [])) 2)
   \<and> heap (after_catalogs [TableObj ex_source] ex_upload [''CAT0'', ''CAT1''] [5, 1]
             ((\<lambda>m. ex_batch)(0 := [])) 2) ! 2 = MultiIndexDFObject ex_batch"
proof -
  have h1: "0 < length [TableObj ex_source]" and h2: "[TableObj ex_source] ! 0 = TableObj ex_source"
    and h4: "(Inr [ex_quiet_service] :: registry) = Inr (ex_quiet_service # [])"
    and h5: "0 < length [''CAT0'', ''CAT1'']" and h6: "0 < length [5, 1 :: real]"
    by simp_all
  have h7: "\<forall>m<0. \<exists>tbl. ex_quiet_service m (hquery ([''CAT0'', ''CAT1''] ! m) ([5, 1] ! m))
                 [(''mytable'', ex_upload)] = Inr tbl
             \<and> make_df ([''CAT0'', ''CAT1''] ! m) tbl = Inr ((\<lambda>m. ex_batch) m)"
    by simp
  have h8: "ex_quiet_service 0 (hquery ([''CAT0'', ''CAT1''] ! 0) ([5, 1] ! 0))
              [(''mytable'', ex_upload)] = Inr ex_empty"
    by (simp add: ex_quiet_service_def hquery_def)
  have h9: "is_empty_result ex_empty"
    by (simp add: is_empty_result_def ex_empty_def)
  have next_step: "loop_body ex_quiet_service 1 2 [''CAT0'', ''CAT1''] [5, 1] 1
        (after_catalogs [TableObj ex_source] ex_upload [''CAT0'', ''CAT1''] [5, 1]
           ((\<lambda>m. ex_batch)(0 := [])) 1)
      = (Inr (), after_catalogs [TableObj ex_source] ex_upload [''CAT0'', ''CAT1''] [5, 1]
           ((\<lambda>m. ex_batch)(0 := [])) 2)"
    by (simp add: after_catalogs_def loop_body_def seq_def lift_def list_index_def run_sync_def
        get_table_def ret_def append_def ex_quiet_service_def ex_service_def hquery_def
        ex_make_df upt_rec)
  show ?thesis
    using h9 empty_result_continues[where b = "\<lambda>m. ex_batch" and svc = ex_quiet_service
        and T = ex_upload and tbl = ex_empty, OF h1 h2 ex_upload_of h4 h5 h6 h7 h8 h9]
      next_step
    by (simp add: upt_rec numeral_2_eq_2) (simp add: after_catalogs_def upt_rec)
qed

text \<open>
  C7. For a catalog name, \<^verbatim>\<open>make_hist_error_radii\<close> issues one query: the first
  5000 rows of that catalog, columns \<^verbatim>\<open>name, ra, dec, error_radius\<close>, with no
  filter, so that every row is eligible. When the service answers with a table, the function
  hands its \<^verbatim>\<open>error_radius\<close> column to the histogram (30 bins, range 0 to 10) and
  returns the table as the service gave it, whatever the error radii in it are.
\<close>

theorem inspector_returns_query_result:
  assumes "reg = Inr (svc # rest)"
    and "svc 0 (heasarcquery missioncat) [] = Inr tbl"
    and "tbl_getitem tbl ''error_radius'' = Inr radii"
  shows "make_hist_error_radii reg missioncat (init h)
           = (Inr tbl, \<lparr> heap = h,
                         trace = [RegSearch ''tap'' [''heasarc''],
                                  RunSync (heasarcquery missioncat) [],
                                  Hist radii 30 0 10] \<rparr>)
     \<and> q_top (heasarcquery missioncat) = Some 5000
     \<and> q_select (heasarcquery missioncat)
         = [(''cat'', ''name''), (''cat'', ''ra''), (''cat'', ''dec''), (''cat'', ''error_radius'')]
     \<and> q_from (heasarcquery missioncat) = [(missioncat, ''cat'')]
     \<and> (\<forall>g \<rho>. selects g (heasarcquery missioncat) \<rho>)"
  using assms
  by (simp add: make_hist_error_radii_def regsearch_def run_sync_def seq_def emit_def lift_def
      ret_def list_index_def init_def heasarcquery_def selects_def)

theorem inspector_returns_query_result_witness:
  "make_hist_error_radii (Inr [ex_catalog_service]) ''FERMIGTRIG'' (init [])
     = (Inr ex_catalog, \<lparr> heap = [],
                            trace = [RegSearch ''tap'' [''heasarc''],
                                     RunSync (heasarcquery ''FERMIGTRIG'') [],
                                     Hist [FloatC 0.5, FloatC 50] 30 0 10] \<rparr>)
   \<and> tbl_getitem ex_catalog ''error_radius'' = Inr [FloatC 0.5, FloatC 50]"
proof -
  have h1: "(Inr [ex_catalog_service] :: registry) = Inr (ex_catalog_service # [])" by simp
  have h2: "ex_catalog_service 0 (heasarcquery ''FERMIGTRIG'') [] = Inr ex_catalog"
    by (simp add: ex_catalog_service_def)
  have h3: "tbl_getitem ex_catalog ''error_radius'' = Inr [FloatC 0.5, FloatC 50]"
    by (simp add: tbl_getitem_def ex_catalog_def)
  show ?thesis
    using h3 inspector_returns_query_result[OF h1 h2 h3, of "[]"] by simp
qed

end
